theory Spec2Isabelle
  imports Main
begin

section \<open>JavaScript strings, arrays and insertion-ordered maps\<close>

text \<open>
  A string is a list of characters. Of the white space that \<open>String.prototype.trim\<close>
  removes, the characters representable here are TAB, LF, VT, FF, CR, SPACE and NBSP.
\<close>

definition isWhiteSpace :: "char \<Rightarrow> bool" where
  "isWhiteSpace c = (of_char c \<in> {9, 10, 11, 12, 13, 32, 160 :: nat})"

definition trim :: "string \<Rightarrow> string" where
  "trim s = rev (dropWhile isWhiteSpace (rev (dropWhile isWhiteSpace s)))"

text \<open>\<open>s.endsWith(t)\<close>: the last \<open>t.length\<close> characters of \<open>s\<close> are \<open>t\<close>.\<close>

definition endsWith :: "string \<Rightarrow> string \<Rightarrow> bool" where
  "endsWith s t = (length t \<le> length s \<and> drop (length s - length t) s = t)"

text \<open>\<open>s.substr(0, n)\<close> for a non-negative \<open>n\<close>.\<close>

definition substr0 :: "string \<Rightarrow> nat \<Rightarrow> string" where
  "substr0 s n = take n s"

text \<open>
  \<open>Array.prototype.indexOf\<close>: the first index holding the element (compared with
  \<open>===\<close>), or \<open>-1\<close>.
\<close>

fun indexOfFrom :: "int \<Rightarrow> 'a list \<Rightarrow> 'a \<Rightarrow> int" where
  "indexOfFrom k [] x = - 1"
| "indexOfFrom k (y # ys) x = (if y = x then k else indexOfFrom (k + 1) ys x)"

definition indexOf :: "'a list \<Rightarrow> 'a \<Rightarrow> int" where
  "indexOf xs x = indexOfFrom 0 xs x"

text \<open>\<open>xs[i]\<close> for a number \<open>i\<close>: \<open>undefined\<close> outside the array.\<close>

definition at_index :: "'a list \<Rightarrow> int \<Rightarrow> 'a option" where
  "at_index xs i = (if 0 \<le> i \<and> i < int (length xs) then Some (xs ! nat i) else None)"

text \<open>
  A JavaScript \<open>Map\<close> iterates in insertion order: an association list with distinct
  keys, a new key appended at the end, an old key keeping its place.
\<close>

type_synonym ('k, 'v) js_map = "('k \<times> 'v) list"

definition map_has :: "('k, 'v) js_map \<Rightarrow> 'k \<Rightarrow> bool" where
  "map_has m k = (k \<in> set (map fst m))"

fun map_set :: "('k, 'v) js_map \<Rightarrow> 'k \<Rightarrow> 'v \<Rightarrow> ('k, 'v) js_map" where
  "map_set [] k v = [(k, v)]"
| "map_set ((k', v') # m) k v = (if k' = k then (k, v) # m else (k', v') # map_set m k v)"

definition map_delete :: "('k, 'v) js_map \<Rightarrow> 'k \<Rightarrow> ('k, 'v) js_map" where
  "map_delete m k = filter (\<lambda>e. fst e \<noteq> k) m"

definition map_values :: "('k, 'v) js_map \<Rightarrow> 'v list" where
  "map_values m = map snd m"

text \<open>\<open>m.values().next().value\<close>: the first value, \<open>undefined\<close> for an empty map.\<close>

definition first_value :: "('k, 'v) js_map \<Rightarrow> 'v option" where
  "first_value m = (case map_values m of [] \<Rightarrow> None | v # _ \<Rightarrow> Some v)"

section \<open>The SCM service: ScmInput, ScmRepository and ScmService\<close>

subsection \<open>Interfaces\<close>

text \<open>
  A resource is an object, compared by identity: the type variable \<open>'r\<close> stands for
  resource references. Fields carry the name of their interface where the plain name
  is taken (\<open>id\<close>, \<open>text\<close>) or shared between interfaces.
\<close>

record 'r ScmResourceGroup =
  group_id :: string
  group_label :: string
  resources :: "'r list"

text \<open>\<open>repository\<close> is the field of the Git provider that \<open>GitContribution\<close> reads.\<close>

record 'r ScmProvider =
  provider_id :: string
  provider_label :: string
  rootUri :: string
  repository :: string
  groups :: "'r ScmResourceGroup list"

record ScmCommand =
  cmd_id :: string
  cmd_text :: string
  cmd_tooltip :: "string option"
  cmd_command :: "string option"

datatype IssueType = info | success | warning | error

record ScmInputIssue =
  issue_message :: string
  issue_type :: IssueType

type_synonym ScmInputValidator = "string \<Rightarrow> ScmInputIssue option"

record ScmInputOptions =
  placeholder_opt :: "string option"
  validator :: "ScmInputValidator option"

record ScmProviderOptions =
  input_opt :: "ScmInputOptions option"

subsection \<open>ScmInput\<close>

text \<open>
  The emitters are modelled by the number of times they fired. \<open>validate\<close> is
  asynchronous: the validator is called at once, the assignment of its result to
  \<open>issue\<close> runs when the promise resolves. \<open>pendingValidations\<close> holds the results
  whose assignment has not run yet.
\<close>

record ScmInput =
  input_options :: ScmInputOptions
  p_value :: string
  p_issue :: "ScmInputIssue option"
  pendingValidations :: "ScmInputIssue option list"
  inputDidChangeFired :: nat
  focusFired :: nat

definition new_ScmInput :: "ScmInputOptions option \<Rightarrow> ScmInput" where
  "new_ScmInput opts =
     \<lparr>input_options =
        (case opts of None \<Rightarrow> \<lparr>placeholder_opt = None, validator = None\<rparr> | Some o' \<Rightarrow> o'),
      p_value = [], p_issue = None, pendingValidations = [],
      inputDidChangeFired = 0, focusFired = 0\<rparr>"

definition placeholder :: "ScmInput \<Rightarrow> string" where
  "placeholder i =
     (case placeholder_opt (input_options i) of None \<Rightarrow> [] | Some p \<Rightarrow> p)"

definition fireInputDidChange :: "ScmInput \<Rightarrow> ScmInput" where
  "fireInputDidChange i = i\<lparr>inputDidChangeFired := Suc (inputDidChangeFired i)\<rparr>"

text \<open>
  \<open>issue || {}\<close> is the empty object or the issue; \<open>JSONExt.deepEqual\<close> compares
  two such objects by their keys and values.
\<close>

datatype JSONObject = EmptyObject | IssueObject ScmInputIssue

definition orEmpty :: "ScmInputIssue option \<Rightarrow> JSONObject" where
  "orEmpty issue = (case issue of None \<Rightarrow> EmptyObject | Some i \<Rightarrow> IssueObject i)"

definition deepEqual :: "JSONObject \<Rightarrow> JSONObject \<Rightarrow> bool" where
  "deepEqual a b = (a = b)"

definition set_issue :: "ScmInputIssue option \<Rightarrow> ScmInput \<Rightarrow> ScmInput" where
  "set_issue issue i =
     (if deepEqual (orEmpty (p_issue i)) (orEmpty issue) then i
      else fireInputDidChange (i\<lparr>p_issue := issue\<rparr>))"

text \<open>\<open>validate\<close> up to its \<open>await\<close>: the validator runs on the current value.\<close>

definition validate :: "ScmInput \<Rightarrow> ScmInput" where
  "validate i =
     (case validator (input_options i) of
        None \<Rightarrow> i
      | Some v \<Rightarrow> i\<lparr>pendingValidations := pendingValidations i @ [v (p_value i)]\<rparr>)"

text \<open>\<open>validate\<close> after its \<open>await\<close>: the \<open>k\<close>-th pending result is assigned.\<close>

definition resumeValidate :: "nat \<Rightarrow> ScmInput \<Rightarrow> ScmInput" where
  "resumeValidate k i =
     (if k < length (pendingValidations i)
      then set_issue (pendingValidations i ! k)
             (i\<lparr>pendingValidations :=
                  take k (pendingValidations i) @ drop (Suc k) (pendingValidations i)\<rparr>)
      else i)"

definition set_value :: "string \<Rightarrow> ScmInput \<Rightarrow> ScmInput" where
  "set_value v i =
     (if p_value i = v then i
      else validate (fireInputDidChange (i\<lparr>p_value := v\<rparr>)))"

definition focus :: "ScmInput \<Rightarrow> ScmInput" where
  "focus i = i\<lparr>focusFired := Suc (focusFired i)\<rparr>"

subsection \<open>ScmRepository\<close>

record 'r ScmRepository =
  provider :: "'r ScmProvider"
  repo_options :: ScmProviderOptions
  input :: ScmInput
  p_resources :: "'r list"
  selectedIndex :: int
  didChangeFired :: nat
  disposed :: bool

definition fireDidChange :: "'r ScmRepository \<Rightarrow> 'r ScmRepository" where
  "fireDidChange repo = repo\<lparr>didChangeFired := Suc (didChangeFired repo)\<rparr>"

definition selectedResource :: "'r ScmRepository \<Rightarrow> 'r option" where
  "selectedResource repo = at_index (p_resources repo) (selectedIndex repo)"

definition set_selectedResource :: "'r option \<Rightarrow> 'r ScmRepository \<Rightarrow> 'r ScmRepository" where
  "set_selectedResource sel repo =
     fireDidChange
       (repo\<lparr>selectedIndex :=
          (case sel of Some r \<Rightarrow> indexOf (p_resources repo) r | None \<Rightarrow> - 1)\<rparr>)"

definition updateSelection :: "'r ScmRepository \<Rightarrow> 'r ScmRepository" where
  "updateSelection repo = set_selectedResource (selectedResource repo) repo"

text \<open>The loop over the groups pushes each group's resources onto the emptied array.\<close>

definition updateResources :: "'r ScmRepository \<Rightarrow> 'r ScmRepository" where
  "updateResources repo =
     updateSelection
       (repo\<lparr>p_resources := foldl (\<lambda>acc g. acc @ resources g) [] (groups (provider repo))\<rparr>)"

definition new_ScmRepository :: "'r ScmProvider \<Rightarrow> ScmProviderOptions \<Rightarrow> 'r ScmRepository" where
  "new_ScmRepository prov opts =
     updateResources
       \<lparr>provider = prov, repo_options = opts, input = new_ScmInput (input_opt opts),
        p_resources = [], selectedIndex = - 1, didChangeFired = 0, disposed = False\<rparr>"

text \<open>
  The listener \<open>this.provider.onDidChange(() => this.updateResources())\<close>: the provider,
  whose groups are now \<open>gs\<close>, fires its change event.
\<close>

definition providerDidChange ::
  "'r ScmResourceGroup list \<Rightarrow> 'r ScmRepository \<Rightarrow> 'r ScmRepository" where
  "providerDidChange gs repo = updateResources (repo\<lparr>provider := (provider repo)\<lparr>groups := gs\<rparr>\<rparr>)"

text \<open>
  The listener \<open>this.input.onDidChange(() => this.fireDidChange())\<close>: an operation on
  the input fires the repository's event once for each firing of the input's.
\<close>

definition onInput :: "(ScmInput \<Rightarrow> ScmInput) \<Rightarrow> 'r ScmRepository \<Rightarrow> 'r ScmRepository" where
  "onInput f repo =
     (let i = f (input repo)
      in repo\<lparr>input := i,
              didChangeFired :=
                didChangeFired repo + (inputDidChangeFired i - inputDidChangeFired (input repo))\<rparr>)"

definition selectNextResource :: "'r ScmRepository \<Rightarrow> 'r option \<times> 'r ScmRepository" where
  "selectNextResource repo =
     (let repo' =
        (if selectedIndex repo \<noteq> 0 \<and> selectedIndex repo < int (length (p_resources repo)) - 1
         then fireDidChange (repo\<lparr>selectedIndex := selectedIndex repo + 1\<rparr>)
         else if length (p_resources repo) \<noteq> 0 \<and> selectedIndex repo = - 1
         then fireDidChange (repo\<lparr>selectedIndex := 0\<rparr>)
         else repo)
      in (selectedResource repo', repo'))"

definition selectPreviousResource :: "'r ScmRepository \<Rightarrow> 'r option \<times> 'r ScmRepository" where
  "selectPreviousResource repo =
     (let repo' =
        (if selectedIndex repo \<noteq> 0
         then fireDidChange (repo\<lparr>selectedIndex := selectedIndex repo - 1\<rparr>)
         else repo)
      in (selectedResource repo', repo'))"

definition dispose :: "'r ScmRepository \<Rightarrow> 'r ScmRepository" where
  "dispose repo = repo\<lparr>disposed := True\<rparr>"

subsection \<open>ScmService\<close>

text \<open>
  Repositories are objects compared by identity (\<open>===\<close>): the service's state holds
  the allocated repository objects, and a reference is an index into them.
\<close>

datatype ServiceEvent =
    DidAddRepository nat
  | DidRemoveRepository nat
  | DidChangeSelectedRepository "nat option"

datatype Error = Error string

record 'r ScmService =
  objects :: "'r ScmRepository list"
  p_repositories :: "(string, nat) js_map"
  p_selectedRepository :: "nat option"
  serviceFired :: "ServiceEvent list"

definition new_ScmService :: "'r ScmService" where
  "new_ScmService =
     \<lparr>objects = [], p_repositories = [], p_selectedRepository = None, serviceFired = []\<rparr>"

definition fire :: "ServiceEvent \<Rightarrow> 'r ScmService \<Rightarrow> 'r ScmService" where
  "fire e s = s\<lparr>serviceFired := serviceFired s @ [e]\<rparr>"

definition repositories :: "'r ScmService \<Rightarrow> nat list" where
  "repositories s = map_values (p_repositories s)"

definition set_selectedRepository :: "nat option \<Rightarrow> 'r ScmService \<Rightarrow> 'r ScmService" where
  "set_selectedRepository r s =
     fire (DidChangeSelectedRepository r) (s\<lparr>p_selectedRepository := r\<rparr>)"

definition getRepository :: "'r ScmService \<Rightarrow> string \<Rightarrow> nat option" where
  "getRepository s k = map_of (p_repositories s) k"

text \<open>
  The \<open>dispose\<close> that \<open>registerScmProvider\<close> installs on the repository it returns;
  \<open>r\<close> is that repository, an allocated object, and \<open>provider.id\<close> the id of its
  provider. The repository's own \<open>dispose\<close> is called in between.
\<close>

definition dispose_registered :: "nat \<Rightarrow> 'r ScmService \<Rightarrow> 'r ScmService" where
  "dispose_registered r s =
     (let s1 = s\<lparr>p_repositories :=
                   map_delete (p_repositories s) (provider_id (provider (objects s ! r)))\<rparr>;
          s2 = s1\<lparr>objects := (objects s1)[r := dispose (objects s1 ! r)]\<rparr>;
          s3 = fire (DidRemoveRepository r) s2
      in if p_selectedRepository s3 = Some r
         then set_selectedRepository (first_value (p_repositories s3)) s3
         else s3)"

definition registerScmProvider ::
  "'r ScmProvider \<Rightarrow> ScmProviderOptions \<Rightarrow> 'r ScmService \<Rightarrow> (Error + nat) \<times> 'r ScmService" where
  "registerScmProvider prov opts s =
     (if map_has (p_repositories s) (provider_id prov)
      then (Inl (Error (''SCM Provider '' @ provider_id prov @ '' already exists.'')), s)
      else
        let r = length (objects s);
            s1 = s\<lparr>objects := objects s @ [new_ScmRepository prov opts]\<rparr>;
            s2 = s1\<lparr>p_repositories := map_set (p_repositories s1) (provider_id prov) r\<rparr>;
            s3 = fire (DidAddRepository r) s2;
            s4 = (if length (p_repositories s3) = 1
                  then set_selectedRepository (Some r) s3 else s3)
        in (Inr r, s4))"

section \<open>The Git contribution: GitContribution\<close>

subsection \<open>Git model and service\<close>

text \<open>
  \<open>GitFileStatus\<close>, \<open>GitFileChange\<close> and the working directory status are imported
  from \<open>../common\<close>: the records hold the fields that \<open>GitContribution\<close> reads, and
  of the enumeration only \<open>Conflicted\<close> is told from the other members. \<open>staged\<close>
  is an optional boolean, \<open>branch\<close> and \<open>currentHead\<close> are optional strings.
\<close>

datatype GitFileStatus = Conflicted | OtherStatus string

record GitFileChange =
  uri :: string
  status :: GitFileStatus
  staged :: "bool option"

record WorkingDirectoryStatus =
  branch :: "string option"
  currentHead :: "string option"
  changes :: "GitFileChange list"

datatype GitError = GitError string

text \<open>
  The Git service is the environment: what \<open>status\<close>, \<open>commit\<close> and \<open>exec\<close> answer
  for a repository (\<open>Inl\<close> a rejected promise, \<open>exec\<close> answering its \<open>stdout\<close>).
\<close>

record Git =
  git_status :: "string \<Rightarrow> GitError + WorkingDirectoryStatus"
  git_commit :: "string \<Rightarrow> string \<Rightarrow> bool option \<Rightarrow> bool option \<Rightarrow> GitError + unit"
  git_exec :: "string \<Rightarrow> string list \<Rightarrow> GitError + string"

datatype GitCall =
    StatusCall string
  | CommitCall string string "bool option" "bool option"
  | ExecCall string "string list"

record CommitOptions =
  signOff :: "bool option"
  amend :: "bool option"
  message :: "string option"

text \<open>
  The state the contribution works on: the selected SCM repository of the repository
  provider, the calls made to the Git service and the errors given to the error handler.
\<close>

record 'r GitContribution =
  selectedScmRepository :: "'r ScmRepository option"
  gitCalls :: "GitCall list"
  handledErrors :: "GitError list"

subsection \<open>Command identifiers\<close>

definition GIT_CHECKOUT :: string where
  "GIT_CHECKOUT = ''git.checkout''"

definition CHECKOUT_id :: string where
  "CHECKOUT_id = ''git.checkout''"

definition OPEN_CHANGED_FILE_id :: string where
  "OPEN_CHANGED_FILE_id = ''git.open.changed.file''"

definition STAGE_id :: string where
  "STAGE_id = ''git.stage''"

definition STAGE_ALL_id :: string where
  "STAGE_ALL_id = ''git.stage.all''"

definition UNSTAGE_id :: string where
  "UNSTAGE_id = ''git.unstage''"

definition UNSTAGE_ALL_id :: string where
  "UNSTAGE_ALL_id = ''git.unstage.all''"

definition DISCARD_id :: string where
  "DISCARD_id = ''git.discard''"

definition DISCARD_ALL_id :: string where
  "DISCARD_ALL_id = ''git.discard.all''"

subsection \<open>The status-bar text of the Git event listener\<close>

definition hasConflicts :: "GitFileChange list \<Rightarrow> bool" where
  "hasConflicts cs = list_ex (\<lambda>c. status c = Conflicted) cs"

text \<open>\<open>!c.staged\<close> holds of \<open>false\<close> and of \<open>undefined\<close>.\<close>

definition allStaged :: "GitFileChange list \<Rightarrow> bool" where
  "allStaged cs = (\<not> list_ex (\<lambda>c. staged c \<noteq> Some True) cs)"

definition dirtyOf :: "GitFileChange list \<Rightarrow> string" where
  "dirtyOf cs =
     (if length cs > 0
      then (let conflicts = hasConflicts cs; stagedAll = allStaged cs
            in if conflicts \<or> stagedAll
               then (if conflicts then ''!'' else if stagedAll then ''+'' else [])
               else ''*'')
      else [])"

text \<open>An optional string is truthy when it is defined and not empty.\<close>

definition truthy :: "string option \<Rightarrow> bool" where
  "truthy s = (case s of None \<Rightarrow> False | Some t \<Rightarrow> t \<noteq> [])"

definition branchOf :: "WorkingDirectoryStatus \<Rightarrow> string" where
  "branchOf st =
     (if truthy (branch st) then the (branch st)
      else if truthy (currentHead st) then take 8 (the (currentHead st))
      else ''NO-HEAD'')"

text \<open>
  The argument of \<open>scmProvider.setStatusBarCommands\<close> in the listener of
  \<open>repositoryTracker.onGitEvent\<close>, called when an SCM provider is selected.
\<close>

definition onGitEvent_statusBarCommands :: "WorkingDirectoryStatus \<Rightarrow> ScmCommand list" where
  "onGitEvent_statusBarCommands st =
     [\<lparr>cmd_id = GIT_CHECKOUT,
       cmd_text = ''$(code-fork) '' @ branchOf st @ dirtyOf (changes st),
       cmd_tooltip = None,
       cmd_command = Some CHECKOUT_id\<rparr>]"

subsection \<open>commit and addSignOff\<close>

text \<open>\<open>options.message || scmRepository.input.value\<close>\<close>

definition messageOrValue :: "string option \<Rightarrow> string \<Rightarrow> string" where
  "messageOrValue m v = (if truthy m then the m else v)"

definition noMessageIssue :: ScmInputIssue where
  "noMessageIssue = \<lparr>issue_message = ''Please provide a commit message'', issue_type = error\<rparr>"

definition nothingStagedIssue :: ScmInputIssue where
  "nothingStagedIssue = \<lparr>issue_message = ''No changes added to commit'', issue_type = error\<rparr>"

text \<open>
  \<open>commit\<close> is asynchronous: while it awaits an answer of the Git service, other tasks
  run. What they do to the input of the repository in the meantime is a list of
  operations: the assignment of a pending validator result (the continuation of
  \<open>validate\<close>), and the setters and the focus that the other callers of the input use.
\<close>

datatype InputOp =
    ResumeValidate nat
  | SetValue string
  | SetIssue "ScmInputIssue option"
  | Focus

fun applyInputOp :: "InputOp \<Rightarrow> ScmInput \<Rightarrow> ScmInput" where
  "applyInputOp (ResumeValidate k) i = resumeValidate k i"
| "applyInputOp (SetValue v) i = set_value v i"
| "applyInputOp (SetIssue x) i = set_issue x i"
| "applyInputOp Focus i = focus i"

fun runInputOps :: "InputOp list \<Rightarrow> 'r ScmRepository \<Rightarrow> 'r ScmRepository" where
  "runInputOps [] repo = repo"
| "runInputOps (a # as) repo = runInputOps as (onInput (applyInputOp a) repo)"

text \<open>The operations that run during \<open>await git.status\<close> and during \<open>await git.commit\<close>.\<close>

record Awaits =
  duringStatus :: "InputOp list"
  duringCommit :: "InputOp list"

text \<open>
  The last \<open>if\<close> of \<open>commit\<close>, which reads the issue of the input again: the call of
  \<open>git.commit\<close>, or the focus.
\<close>

definition commit_or_focus ::
  "Git \<Rightarrow> Awaits \<Rightarrow> CommitOptions \<Rightarrow> string \<Rightarrow> string \<Rightarrow> 'r ScmRepository
     \<Rightarrow> 'r GitContribution \<Rightarrow> (GitError + unit) \<times> 'r GitContribution" where
  "commit_or_focus git aw options repo msg scmRepository w =
     (if p_issue (input scmRepository) = None
      then
        (let w1 = w\<lparr>gitCalls :=
                      gitCalls w @ [CommitCall repo msg (signOff options) (amend options)]\<rparr>;
             r = runInputOps (duringCommit aw) scmRepository
         in case git_commit git repo msg (signOff options) (amend options) of
              Inr _ \<Rightarrow>
                (Inr (), w1\<lparr>selectedScmRepository := Some (onInput (set_value []) r)\<rparr>)
            | Inl e \<Rightarrow>
                (Inr (), w1\<lparr>selectedScmRepository := Some r,
                            handledErrors := handledErrors w1 @ [e]\<rparr>))
      else (Inr (), w\<lparr>selectedScmRepository := Some (onInput focus scmRepository)\<rparr>))"

text \<open>
  The test \<open>input.issue === undefined\<close> is evaluated before \<open>git.status\<close> is called and
  awaited; the operations of the other tasks take effect before \<open>commit\<close> goes on.
\<close>

definition commit ::
  "Git \<Rightarrow> Awaits \<Rightarrow> CommitOptions \<Rightarrow> 'r GitContribution
     \<Rightarrow> (GitError + unit) \<times> 'r GitContribution" where
  "commit git aw options w =
     (case selectedScmRepository w of
        None \<Rightarrow> (Inr (), w)
      | Some scmRepository \<Rightarrow>
          let repo = repository (provider scmRepository);
              msg = messageOrValue (message options) (p_value (input scmRepository));
              r1 = onInput (set_issue None) scmRepository;
              r2 = (if trim msg = [] then onInput (set_issue (Some noMessageIssue)) r1 else r1)
          in if p_issue (input r2) = None
             then
               (let w1 = w\<lparr>gitCalls := gitCalls w @ [StatusCall repo]\<rparr>;
                    r3 = runInputOps (duringStatus aw) r2
                in case git_status git repo of
                     Inl e \<Rightarrow> (Inl e, w1\<lparr>selectedScmRepository := Some r3\<rparr>)
                   | Inr st \<Rightarrow>
                       if \<not> list_ex (\<lambda>c. staged c = Some True) (changes st)
                       then commit_or_focus git aw options repo msg
                              (onInput (set_issue (Some nothingStagedIssue)) r3) w1
                       else commit_or_focus git aw options repo msg r3 w1)
             else commit_or_focus git aw options repo msg r2 w)"

definition signOffOf :: "string \<Rightarrow> string \<Rightarrow> string" where
  "signOffOf username email =
     [CHR 0x0A, CHR 0x0A] @ ''Signed-off-by: '' @ username @ '' <'' @ email @ ''>''"

text \<open>
  \<open>addSignOff\<close> reads and writes the input only after its one await, of the two answers
  of \<open>git config\<close>: what other tasks do during the await precedes all it does.
\<close>

definition addSignOff ::
  "Git \<Rightarrow> 'r GitContribution \<Rightarrow> (GitError + unit) \<times> 'r GitContribution" where
  "addSignOff git w =
     (case selectedScmRepository w of
        None \<Rightarrow> (Inr (), w)
      | Some scmRepository \<Rightarrow>
          let repo = repository (provider scmRepository);
              w1 = w\<lparr>gitCalls := gitCalls w @
                     [ExecCall repo [''config'', ''user.name''],
                      ExecCall repo [''config'', ''user.email'']]\<rparr>
          in (case git_exec git repo [''config'', ''user.name''] of
               Inl e \<Rightarrow> (Inl e, w1)
             | Inr out1 \<Rightarrow>
                 (case git_exec git repo [''config'', ''user.email''] of
                    Inl e \<Rightarrow> (Inl e, w1)
                  | Inr out2 \<Rightarrow>
                      let username = trim out1;
                          email = trim out2;
                          signOffText = signOffOf username email;
                          v = p_value (input scmRepository);
                          r1 = (if endsWith v signOffText
                                then onInput (set_value
                                       (substr0 v (length v - length signOffText))) scmRepository
                                else onInput (set_value (v @ signOffText)) scmRepository)
                      in (Inr (), w1\<lparr>selectedScmRepository := Some (onInput focus r1)\<rparr>))))"

subsection \<open>Resource and group command registration\<close>

text \<open>
  The registries are declared in the SCM package; a registry is modelled by the calls of
  \<open>registerItems\<close> it received, in order.
\<close>

record ScmItem =
  item_command :: string
  item_group :: string

type_synonym ScmCommandRegistry = "(string \<times> ScmItem list) list"

definition registerItems :: "string \<Rightarrow> ScmItem list \<Rightarrow> ScmCommandRegistry \<Rightarrow> ScmCommandRegistry" where
  "registerItems groupId items registry = registry @ [(groupId, items)]"

definition registerScmResourceCommands :: "ScmCommandRegistry \<Rightarrow> ScmCommandRegistry" where
  "registerScmResourceCommands registry =
     registerItems ''Merged Changes''
       [\<lparr>item_command = OPEN_CHANGED_FILE_id, item_group = ''navigation''\<rparr>,
        \<lparr>item_command = DISCARD_id, item_group = ''navigation''\<rparr>,
        \<lparr>item_command = STAGE_id, item_group = ''navigation''\<rparr>]
       (registerItems ''Staged changes''
          [\<lparr>item_command = OPEN_CHANGED_FILE_id, item_group = ''navigation''\<rparr>,
           \<lparr>item_command = UNSTAGE_id, item_group = ''navigation''\<rparr>]
          (registerItems ''Changes''
             [\<lparr>item_command = OPEN_CHANGED_FILE_id, item_group = ''navigation''\<rparr>,
              \<lparr>item_command = DISCARD_id, item_group = ''navigation''\<rparr>,
              \<lparr>item_command = STAGE_id, item_group = ''navigation''\<rparr>]
             registry))"

definition registerScmGroupCommands :: "ScmCommandRegistry \<Rightarrow> ScmCommandRegistry" where
  "registerScmGroupCommands registry =
     registerItems ''Merged Changes''
       [\<lparr>item_command = STAGE_ALL_id, item_group = ''inline''\<rparr>]
       (registerItems ''Staged changes''
          [\<lparr>item_command = UNSTAGE_ALL_id, item_group = ''inline''\<rparr>]
          (registerItems ''Changes''
             [\<lparr>item_command = DISCARD_ALL_id, item_group = ''inline''\<rparr>,
              \<lparr>item_command = STAGE_ALL_id, item_group = ''inline''\<rparr>]
             registry))"

section \<open>Invariants and example states\<close>

text \<open>
  The invariant of a repository: its resources are the resources of its provider's
  groups, in group order, and the selected resource, when there is one, is among them.
\<close>

definition repo_invariant :: "'r ScmRepository \<Rightarrow> bool" where
  "repo_invariant repo =
     (p_resources repo = concat (map resources (groups (provider repo))) \<and>
      (case selectedResource repo of None \<Rightarrow> True | Some r \<Rightarrow> r \<in> set (p_resources repo)))"

text \<open>
  The invariant of the service: every entry of the map refers to an allocated
  repository, stored under the id of its provider.
\<close>

definition wf_service :: "'r ScmService \<Rightarrow> bool" where
  "wf_service s =
     list_all (\<lambda>e. snd e < length (objects s) \<and>
                    provider_id (provider (objects s ! snd e)) = fst e)
       (p_repositories s)"

definition exampleProvider :: "nat ScmProvider" where
  "exampleProvider =
     \<lparr>provider_id = ''git'', provider_label = ''Git'', rootUri = ''file:///w'',
      repository = ''file:///w'',
      groups = [\<lparr>group_id = ''workingTree'', group_label = ''Changes'', resources = [10, 11]\<rparr>,
                \<lparr>group_id = ''index'', group_label = ''Staged changes'', resources = [12]\<rparr>]\<rparr>"

definition exampleRepository :: "nat ScmRepository" where
  "exampleRepository = new_ScmRepository exampleProvider \<lparr>input_opt = None\<rparr>"

definition providerA :: "nat ScmProvider" where
  "providerA = \<lparr>provider_id = ''a'', provider_label = ''A'', rootUri = ''file:///a'',
      repository = ''file:///a'', groups = []\<rparr>"

definition providerB :: "nat ScmProvider" where
  "providerB = \<lparr>provider_id = ''b'', provider_label = ''B'', rootUri = ''file:///b'',
      repository = ''file:///b'', groups = []\<rparr>"

definition serviceAB :: "nat ScmService" where
  "serviceAB =
     snd (registerScmProvider providerB \<lparr>input_opt = None\<rparr>
       (snd (registerScmProvider providerA \<lparr>input_opt = None\<rparr> new_ScmService)))"

definition exampleValidator :: ScmInputValidator where
  "exampleValidator v =
     (if length v > 3 then Some \<lparr>issue_message = ''too long'', issue_type = warning\<rparr> else None)"

definition validatedRepository :: "nat ScmRepository" where
  "validatedRepository =
     new_ScmRepository exampleProvider
       \<lparr>input_opt = Some \<lparr>placeholder_opt = None, validator = Some exampleValidator\<rparr>\<rparr>"

definition stagedStatus :: WorkingDirectoryStatus where
  "stagedStatus =
     \<lparr>branch = Some ''master'', currentHead = Some ''0123456789abcdef'',
      changes = [\<lparr>uri = ''file:///w/a.ts'', status = OtherStatus ''Modified'', staged = Some True\<rparr>]\<rparr>"

definition mixedStatus :: WorkingDirectoryStatus where
  "mixedStatus =
     \<lparr>branch = None, currentHead = Some ''0123456789abcdef'',
      changes = [\<lparr>uri = ''file:///w/a.ts'', status = OtherStatus ''Modified'', staged = Some True\<rparr>,
                 \<lparr>uri = ''file:///w/b.ts'', status = OtherStatus ''New'', staged = None\<rparr>]\<rparr>"




definition exampleGit :: "WorkingDirectoryStatus \<Rightarrow> Git" where
  "exampleGit st =
     \<lparr>git_status = (\<lambda>repo. Inr st),
      git_commit = (\<lambda>repo msg so am. Inr ()),
      git_exec = (\<lambda>repo args.
         if args = [''config'', ''user.name''] then Inr (''a'' @ [CHR 0x0A])
         else if args = [''config'', ''user.email''] then Inr (''b'' @ [CHR 0x0A])
         else Inl (GitError ''unknown''))\<rparr>"

definition exampleContribution :: "nat GitContribution" where
  "exampleContribution =
     \<lparr>selectedScmRepository = Some exampleRepository, gitCalls = [], handledErrors = []\<rparr>"






definition conflictStatus :: WorkingDirectoryStatus where
  "conflictStatus =
     \<lparr>branch = Some ''master'', currentHead = Some ''0123456789abcdef'',
      changes = [\<lparr>uri = ''file:///w/a.ts'', status = Conflicted, staged = Some True\<rparr>]\<rparr>"

definition cleanStatus :: WorkingDirectoryStatus where
  "cleanStatus = \<lparr>branch = None, currentHead = None, changes = []\<rparr>"

text \<open>The value that \<open>addSignOff\<close> assigns to the input, for the suffix \<open>s\<close> and the value \<open>v\<close>.\<close>

definition toggleSignOff :: "string \<Rightarrow> string \<Rightarrow> string" where
  "toggleSignOff s v = (if endsWith v s then substr0 v (length v - length s) else v @ s)"

text \<open>The value of the input of the selected repository, when there is one.\<close>

definition inputValue :: "'r GitContribution \<Rightarrow> string option" where
  "inputValue w = map_option (\<lambda>repo. p_value (input repo)) (selectedScmRepository w)"

text \<open>A commit message that ends with the sign-off line of \<open>a <b>\<close> twice.\<close>

definition doubleSigned :: "nat GitContribution" where
  "doubleSigned =
     \<lparr>selectedScmRepository =
        Some (onInput (set_value (signOffOf ''a'' ''b'' @ signOffOf ''a'' ''b'')) exampleRepository),
      gitCalls = [], handledErrors = []\<rparr>"

section \<open>Properties of ScmRepository\<close>

lemma foldl_append_resources:
  "foldl (\<lambda>acc g. acc @ resources g) acc gs = acc @ concat (map resources gs)"
  by (induction gs arbitrary: acc) simp_all

lemma at_index_member: "at_index xs i = Some x \<Longrightarrow> x \<in> set xs"
  by (auto simp: at_index_def split: if_splits)

lemma selected_member:
  "(case selectedResource repo of None \<Rightarrow> True | Some r \<Rightarrow> r \<in> set (p_resources repo))"
  by (auto simp: selectedResource_def split: option.splits dest: at_index_member)

lemma exampleRepository_eval:
  "p_resources exampleRepository = [10, 11, 12]" "selectedIndex exampleRepository = - 1"
  "didChangeFired exampleRepository = 1"
  by (simp_all add: exampleRepository_def exampleProvider_def new_ScmRepository_def
      updateResources_def updateSelection_def set_selectedResource_def selectedResource_def
      at_index_def fireDidChange_def new_ScmInput_def)

text \<open>
  C2: with the resource at index 0 selected and more resources after it,
  \<open>selectNextResource\<close> should select the resource at index 1 and fire the change
  event. The test \<open>this.selectedIndex && \<dots>\<close> is false at index 0: in the repository
  with the resources 10, 11, 12 and 10 selected, the call returns 10 and leaves the
  repository as it was, the number of fired events included.
\<close>

theorem selectNextResource_stays_on_first:
  "selectedResource (set_selectedResource (Some 10) exampleRepository) = Some 10 \<and>
   p_resources (set_selectedResource (Some 10) exampleRepository) = [10, 11, 12] \<and>
   selectNextResource (set_selectedResource (Some 10) exampleRepository) =
     (Some 10, set_selectedResource (Some 10) exampleRepository)"
  by (simp add: selectNextResource_def set_selectedResource_def selectedResource_def
      at_index_def fireDidChange_def indexOf_def exampleRepository_eval)

text \<open>
  C3: with no resource selected, \<open>selectPreviousResource\<close> should leave the selection
  state unchanged and fire no event. The test \<open>this.selectedIndex\<close> is true at \<open>-1\<close>: in
  the freshly constructed repository the call moves the index to \<open>-2\<close> and fires the
  change event, and a following \<open>selectNextResource\<close> then selects nothing.
\<close>

theorem selectPreviousResource_without_selection:
  "selectedResource exampleRepository = None \<and>
   selectedIndex exampleRepository = - 1 \<and>
   selectedIndex (snd (selectPreviousResource exampleRepository)) = - 2 \<and>
   didChangeFired (snd (selectPreviousResource exampleRepository)) =
     Suc (didChangeFired exampleRepository) \<and>
   fst (selectNextResource (snd (selectPreviousResource exampleRepository))) = None"
  by (simp add: selectPreviousResource_def selectNextResource_def selectedResource_def
      at_index_def fireDidChange_def exampleRepository_eval Let_def)

text \<open>
  C6: the repository invariant (the resources are the concatenation of the provider's
  groups' resources in group order, and the selected resource is an element of them or
  undefined) holds after construction and after every change event of the provider, and
  is kept by the setter of \<open>selectedResource\<close>, by \<open>selectNextResource\<close> and by
  \<open>selectPreviousResource\<close>.
\<close>

theorem repository_invariant:
  "repo_invariant (new_ScmRepository (prov :: 'r ScmProvider) opts) \<and>
   repo_invariant (providerDidChange gs (repo :: 'r ScmRepository)) \<and>
   (repo_invariant repo \<longrightarrow>
      repo_invariant (set_selectedResource sel repo) \<and>
      repo_invariant (snd (selectNextResource repo)) \<and>
      repo_invariant (snd (selectPreviousResource repo)))"
proof -
  have new: "repo_invariant (new_ScmRepository prov opts)"
    unfolding repo_invariant_def
    by (rule conjI)
      (simp add: new_ScmRepository_def updateResources_def updateSelection_def
        set_selectedResource_def fireDidChange_def foldl_append_resources,
        rule selected_member)
  have chg: "repo_invariant (providerDidChange gs repo)"
    unfolding repo_invariant_def
    by (rule conjI)
      (simp add: providerDidChange_def updateResources_def updateSelection_def
        set_selectedResource_def fireDidChange_def foldl_append_resources,
        rule selected_member)
  have ops: "repo_invariant (set_selectedResource sel repo) \<and>
      repo_invariant (snd (selectNextResource repo)) \<and>
      repo_invariant (snd (selectPreviousResource repo))" if "repo_invariant repo"
  proof -
    from that have res: "p_resources repo = concat (map resources (groups (provider repo)))"
      by (simp add: repo_invariant_def)
    have a: "repo_invariant (set_selectedResource sel repo)"
      unfolding repo_invariant_def
      by (rule conjI)
        (simp add: set_selectedResource_def fireDidChange_def res, rule selected_member)
    have b: "repo_invariant (snd (selectNextResource repo))"
      unfolding repo_invariant_def
      by (rule conjI)
        (simp add: selectNextResource_def fireDidChange_def res Let_def, rule selected_member)
    have c: "repo_invariant (snd (selectPreviousResource repo))"
      unfolding repo_invariant_def
      by (rule conjI)
        (simp add: selectPreviousResource_def fireDidChange_def res Let_def,
          rule selected_member)
    from a b c show ?thesis by simp
  qed
  from new chg ops show ?thesis by blast
qed

text \<open>
  C6 at the example repository: the invariant holds after construction, after selecting
  the resource 11 (which is then the selected resource) and after the two moves.
\<close>

theorem repository_invariant_witness:
  "repo_invariant exampleRepository \<and>
   repo_invariant (set_selectedResource (Some 11) exampleRepository) \<and>
   selectedResource (set_selectedResource (Some 11) exampleRepository) = Some 11 \<and>
   repo_invariant (snd (selectNextResource exampleRepository)) \<and>
   fst (selectNextResource exampleRepository) = Some 10 \<and>
   repo_invariant (snd (selectPreviousResource exampleRepository))"
proof -
  have inv: "repo_invariant exampleRepository"
    using repository_invariant
      [of exampleProvider "\<lparr>input_opt = None\<rparr>" "[]" exampleRepository None]
    by (simp add: exampleRepository_def)
  have ops: "repo_invariant (set_selectedResource (Some 11) exampleRepository) \<and>
      repo_invariant (snd (selectNextResource exampleRepository)) \<and>
      repo_invariant (snd (selectPreviousResource exampleRepository))"
    using inv repository_invariant
      [of exampleProvider "\<lparr>input_opt = None\<rparr>" "[]" exampleRepository "Some 11"]
    by blast
  have vals: "selectedResource (set_selectedResource (Some 11) exampleRepository) = Some 11"
     "fst (selectNextResource exampleRepository) = Some 10"
    by (simp_all add: selectNextResource_def set_selectedResource_def selectedResource_def
      at_index_def fireDidChange_def indexOf_def exampleRepository_eval Let_def)
  from inv ops vals show ?thesis by simp
qed

section \<open>Properties of ScmService\<close>

lemma map_set_absent: "\<not> map_has m k \<Longrightarrow> map_set m k v = m @ [(k, v)]"
  by (induction m) (auto simp: map_has_def)

lemma map_of_appended: "\<not> map_has m k \<Longrightarrow> map_of (m @ [(k, v)]) k = Some v"
  by (induction m) (auto simp: map_has_def)

lemma provider_new_ScmRepository: "provider (new_ScmRepository prov opts) = prov"
  by (simp add: new_ScmRepository_def updateResources_def updateSelection_def
      set_selectedResource_def fireDidChange_def)

lemma provider_dispose: "provider (dispose repo) = provider repo"
  by (simp add: dispose_def)

lemma fire_fields:
  "serviceFired (fire e s) = serviceFired s @ [e]"
  "objects (fire e s) = objects s"
  "p_repositories (fire e s) = p_repositories s"
  "p_selectedRepository (fire e s) = p_selectedRepository s"
  by (simp_all add: fire_def)

lemma set_selectedRepository_fields:
  "serviceFired (set_selectedRepository r s) = serviceFired s @ [DidChangeSelectedRepository r]"
  "objects (set_selectedRepository r s) = objects s"
  "p_repositories (set_selectedRepository r s) = p_repositories s"
  "p_selectedRepository (set_selectedRepository r s) = r"
  by (simp_all add: set_selectedRepository_def fire_fields)

lemmas service_fields =
  provider_new_ScmRepository provider_dispose fire_fields set_selectedRepository_fields

lemma register_fresh:
  assumes "\<not> map_has (p_repositories s) (provider_id prov)"
  shows "fst (registerScmProvider prov opts s) = Inr (length (objects s))"
    and "objects (snd (registerScmProvider prov opts s)) = objects s @ [new_ScmRepository prov opts]"
    and "p_repositories (snd (registerScmProvider prov opts s)) =
           p_repositories s @ [(provider_id prov, length (objects s))]"
    and "p_selectedRepository (snd (registerScmProvider prov opts s)) =
           (if p_repositories s = [] then Some (length (objects s)) else p_selectedRepository s)"
    and "serviceFired (snd (registerScmProvider prov opts s)) =
           serviceFired s @ DidAddRepository (length (objects s)) #
             (if p_repositories s = [] then [DidChangeSelectedRepository (Some (length (objects s)))]
              else [])"
  using assms by (simp_all add: service_fields registerScmProvider_def Let_def map_set_absent)

lemma dispose_registered_fields:
  "objects (dispose_registered r s) = (objects s)[r := dispose (objects s ! r)]"
  "p_repositories (dispose_registered r s) =
     map_delete (p_repositories s) (provider_id (provider (objects s ! r)))"
  by (simp_all add: service_fields dispose_registered_def Let_def)

lemma provider_nth_dispose:
  "b < length xs \<Longrightarrow> provider (xs[r := dispose (xs ! r)] ! b) = provider (xs ! b)"
  by (cases "r = b") (simp_all add: provider_dispose)

text \<open>The invariant of the service holds initially and is kept by both operations.\<close>

lemma wf_new_ScmService: "wf_service new_ScmService"
  by (simp add: service_fields wf_service_def new_ScmService_def)

lemma wf_registerScmProvider:
  assumes "wf_service s"
  shows "wf_service (snd (registerScmProvider prov opts s))"
proof (cases "map_has (p_repositories s) (provider_id prov)")
  case True
  with assms show ?thesis by (simp add: service_fields registerScmProvider_def)
next
  case False
  from assms have "list_all (\<lambda>e. snd e < Suc (length (objects s)) \<and>
      provider_id (provider ((objects s @ [new_ScmRepository prov opts]) ! snd e)) = fst e)
      (p_repositories s)"
    by (auto simp: service_fields wf_service_def list_all_iff nth_append)
  with False show ?thesis
    by (simp add: service_fields wf_service_def register_fresh)
qed

lemma wf_dispose_registered:
  assumes "wf_service s"
  shows "wf_service (dispose_registered r s)"
  using assms
  by (auto simp: service_fields wf_service_def dispose_registered_fields map_delete_def list_all_iff
      provider_nth_dispose)

lemma serviceAB_eval:
  "p_repositories serviceAB = [(''a'', 0), (''b'', 1)]"
  "p_selectedRepository serviceAB = Some 0"
  "length (objects serviceAB) = 2"
  "serviceFired serviceAB =
     [DidAddRepository 0, DidChangeSelectedRepository (Some 0), DidAddRepository 1]"
  "wf_service serviceAB"
  by (simp_all add: service_fields serviceAB_def registerScmProvider_def Let_def map_has_def new_ScmService_def
      providerA_def providerB_def wf_service_def nth_append)

text \<open>
  C4: when a repository is registered under the provider's id, \<open>registerScmProvider\<close>
  throws the error \<open>SCM Provider <id> already exists.\<close> and the service is unchanged.
  Otherwise it allocates a new repository, stores it under the provider's id after the
  entries present, fires \<open>onDidAddRepository\<close> with it and returns it; exactly when the
  map then has one entry, it makes the new repository the selected one and fires
  \<open>onDidChangeSelectedRepository\<close>, and otherwise the selection is unchanged and no
  further event is fired.
\<close>

theorem registerScmProvider_result:
  "(map_has (p_repositories s) (provider_id prov) \<longrightarrow>
      registerScmProvider prov opts s =
        (Inl (Error (''SCM Provider '' @ provider_id prov @ '' already exists.'')), s)) \<and>
   (\<not> map_has (p_repositories s) (provider_id prov) \<longrightarrow>
      fst (registerScmProvider prov opts s) = Inr (length (objects s)) \<and>
      objects (snd (registerScmProvider prov opts s)) =
        objects s @ [new_ScmRepository prov opts] \<and>
      p_repositories (snd (registerScmProvider prov opts s)) =
        p_repositories s @ [(provider_id prov, length (objects s))] \<and>
      getRepository (snd (registerScmProvider prov opts s)) (provider_id prov) =
        Some (length (objects s)) \<and>
      (if length (p_repositories (snd (registerScmProvider prov opts s))) = 1
       then p_selectedRepository (snd (registerScmProvider prov opts s)) =
              Some (length (objects s)) \<and>
            serviceFired (snd (registerScmProvider prov opts s)) =
              serviceFired s @
                [DidAddRepository (length (objects s)),
                 DidChangeSelectedRepository (Some (length (objects s)))]
       else p_selectedRepository (snd (registerScmProvider prov opts s)) =
              p_selectedRepository s \<and>
            serviceFired (snd (registerScmProvider prov opts s)) =
              serviceFired s @ [DidAddRepository (length (objects s))]))"
proof (cases "map_has (p_repositories s) (provider_id prov)")
  case True
  then show ?thesis by (simp add: service_fields registerScmProvider_def)
next
  case False
  note fresh = register_fresh [OF False, of opts]
  have get: "getRepository (snd (registerScmProvider prov opts s)) (provider_id prov) =
      Some (length (objects s))"
    unfolding getRepository_def fresh(3) by (rule map_of_appended [OF False])
  have one: "length (p_repositories (snd (registerScmProvider prov opts s))) = 1 \<longleftrightarrow>
      p_repositories s = []"
    unfolding fresh(3) by (simp add: service_fields service_fields)
  from False get show ?thesis
    unfolding one by (simp add: service_fields fresh)
qed

text \<open>
  C4 at concrete services: registering the provider \<open>a\<close> with the empty service returns
  the repository 0 and selects it; registering it again, with the service that holds
  \<open>a\<close> and \<open>b\<close>, throws and leaves that service unchanged.
\<close>

theorem registerScmProvider_result_witness:
  "\<not> map_has (p_repositories (new_ScmService :: nat ScmService)) (provider_id providerA) \<and>
   fst (registerScmProvider providerA \<lparr>input_opt = None\<rparr> (new_ScmService :: nat ScmService)) =
     Inr 0 \<and>
   p_selectedRepository
     (snd (registerScmProvider providerA \<lparr>input_opt = None\<rparr> (new_ScmService :: nat ScmService))) =
     Some 0 \<and>
   map_has (p_repositories serviceAB) (provider_id providerA) \<and>
   registerScmProvider providerA \<lparr>input_opt = None\<rparr> serviceAB =
     (Inl (Error ''SCM Provider a already exists.''), serviceAB)"
proof -
  have fresh: "\<not> map_has (p_repositories (new_ScmService :: nat ScmService)) (provider_id providerA)"
    by (simp add: service_fields map_has_def new_ScmService_def)
  have dup: "map_has (p_repositories serviceAB) (provider_id providerA)"
    by (simp add: service_fields map_has_def serviceAB_eval providerA_def)
  have one: "fst (registerScmProvider providerA \<lparr>input_opt = None\<rparr>
        (new_ScmService :: nat ScmService)) = Inr 0 \<and>
      p_selectedRepository (snd (registerScmProvider providerA \<lparr>input_opt = None\<rparr>
        (new_ScmService :: nat ScmService))) = Some 0"
    using fresh
      registerScmProvider_result
        [of "new_ScmService :: nat ScmService" providerA "\<lparr>input_opt = None\<rparr>"]
    by (simp add: service_fields new_ScmService_def split: if_splits)
  have two: "registerScmProvider providerA \<lparr>input_opt = None\<rparr> serviceAB =
     (Inl (Error ''SCM Provider a already exists.''), serviceAB)"
    using dup registerScmProvider_result [of serviceAB providerA "\<lparr>input_opt = None\<rparr>"]
    by (simp add: service_fields providerA_def)
  from fresh dup one two show ?thesis by (simp add: service_fields service_fields)
qed

text \<open>
  C8: disposing a repository that \<open>registerScmProvider\<close> returned removes the entry of
  its provider's id from the map, after which the repository is not among the registered
  ones, marks it disposed and fires \<open>onDidRemoveRepository\<close> with it. Exactly when it was
  the selected repository, the first remaining repository in insertion order (undefined
  when none remains) becomes the selected one and \<open>onDidChangeSelectedRepository\<close> is
  fired with it; otherwise the selection is unchanged and no further event is fired.
\<close>

theorem dispose_registered_repository:
  assumes "wf_service s" and "r < length (objects s)"
  shows "r \<notin> set (repositories (dispose_registered r s)) \<and>
     p_repositories (dispose_registered r s) =
       map_delete (p_repositories s) (provider_id (provider (objects s ! r))) \<and>
     disposed (objects (dispose_registered r s) ! r) \<and>
     (if p_selectedRepository s = Some r
      then p_selectedRepository (dispose_registered r s) =
             first_value (p_repositories (dispose_registered r s)) \<and>
           serviceFired (dispose_registered r s) =
             serviceFired s @
               [DidRemoveRepository r,
                DidChangeSelectedRepository (first_value (p_repositories (dispose_registered r s)))]
      else p_selectedRepository (dispose_registered r s) = p_selectedRepository s \<and>
           serviceFired (dispose_registered r s) = serviceFired s @ [DidRemoveRepository r])"
proof -
  have gone: "r \<notin> set (repositories (dispose_registered r s))"
    using assms(1)
    by (auto simp: service_fields repositories_def map_values_def dispose_registered_fields map_delete_def
        wf_service_def list_all_iff)
  have flag: "disposed (objects (dispose_registered r s) ! r)"
    using assms(2) by (simp add: service_fields dispose_registered_fields dispose_def)
  have rest: "(if p_selectedRepository s = Some r
      then p_selectedRepository (dispose_registered r s) =
             first_value (p_repositories (dispose_registered r s)) \<and>
           serviceFired (dispose_registered r s) =
             serviceFired s @
               [DidRemoveRepository r,
                DidChangeSelectedRepository (first_value (p_repositories (dispose_registered r s)))]
      else p_selectedRepository (dispose_registered r s) = p_selectedRepository s \<and>
           serviceFired (dispose_registered r s) = serviceFired s @ [DidRemoveRepository r])"
    by (simp add: service_fields dispose_registered_def Let_def)
  from gone flag rest show ?thesis by (simp add: service_fields dispose_registered_fields)
qed

text \<open>
  C8 at the service holding \<open>a\<close> (selected) and \<open>b\<close>: disposing \<open>a\<close> leaves \<open>b\<close>
  registered and selects it; disposing \<open>b\<close> leaves \<open>a\<close> selected and fires only the
  removal.
\<close>

theorem dispose_registered_repository_witness:
  "wf_service serviceAB \<and> 0 < length (objects serviceAB) \<and>
   p_selectedRepository serviceAB = Some 0 \<and>
   repositories (dispose_registered 0 serviceAB) = [1] \<and>
   p_selectedRepository (dispose_registered 0 serviceAB) = Some 1 \<and>
   serviceFired (dispose_registered 0 serviceAB) =
     serviceFired serviceAB @ [DidRemoveRepository 0, DidChangeSelectedRepository (Some 1)] \<and>
   p_selectedRepository serviceAB \<noteq> Some 1 \<and>
   p_selectedRepository (dispose_registered 1 serviceAB) = Some 0 \<and>
   serviceFired (dispose_registered 1 serviceAB) =
     serviceFired serviceAB @ [DidRemoveRepository 1]"
proof -
  have wf: "wf_service serviceAB" and len0: "0 < length (objects serviceAB)"
    and len1: "1 < length (objects serviceAB)"
    by (simp_all add: service_fields serviceAB_eval)
  have pa: "provider_id (provider (objects serviceAB ! 0)) = ''a''"
    by (simp add: service_fields serviceAB_def registerScmProvider_def Let_def map_has_def new_ScmService_def
      providerA_def providerB_def nth_append)
  have d0: "repositories (dispose_registered 0 serviceAB) = [1] \<and>
   p_selectedRepository (dispose_registered 0 serviceAB) = Some 1 \<and>
   serviceFired (dispose_registered 0 serviceAB) =
     serviceFired serviceAB @ [DidRemoveRepository 0, DidChangeSelectedRepository (Some 1)]"
    using dispose_registered_repository [OF wf len0]
    by (simp add: service_fields serviceAB_eval pa map_delete_def first_value_def map_values_def repositories_def)
  have d1: "p_selectedRepository (dispose_registered 1 serviceAB) = Some 0 \<and>
   serviceFired (dispose_registered 1 serviceAB) =
     serviceFired serviceAB @ [DidRemoveRepository 1]"
    using dispose_registered_repository [OF wf len1]
    by (simp add: service_fields serviceAB_eval)
  from wf len0 d0 d1 show ?thesis by (simp add: service_fields serviceAB_eval)
qed

section \<open>Properties of ScmInput\<close>

lemma deepEqual_orEmpty: "deepEqual (orEmpty a) (orEmpty b) \<longleftrightarrow> a = b"
  by (simp add: deepEqual_def orEmpty_def split: option.splits)

lemma set_issue_same: "p_issue i = x \<Longrightarrow> set_issue x i = i"
  by (simp add: set_issue_def deepEqual_orEmpty)

lemma set_issue_other:
  "p_issue i \<noteq> x \<Longrightarrow> set_issue x i = i\<lparr>p_issue := x, inputDidChangeFired := Suc (inputDidChangeFired i)\<rparr>"
  by (simp add: set_issue_def deepEqual_orEmpty fireInputDidChange_def)

lemma p_issue_set_issue: "p_issue (set_issue x i) = x"
  by (cases "p_issue i = x") (simp_all add: set_issue_same set_issue_other)

lemma set_issue_keeps:
  "p_value (set_issue x i) = p_value i"
  "focusFired (set_issue x i) = focusFired i"
  "input_options (set_issue x i) = input_options i"
  "pendingValidations (set_issue x i) = pendingValidations i"
  by (cases "p_issue i = x"; simp add: set_issue_same set_issue_other)+

lemma onInput_id: "f (input repo) = input repo \<Longrightarrow> onInput f repo = repo"
  by (simp add: onInput_def)

lemma onInput_fields:
  "input (onInput f repo) = f (input repo)"
  "provider (onInput f repo) = provider repo"
  "p_resources (onInput f repo) = p_resources repo"
  "selectedIndex (onInput f repo) = selectedIndex repo"
  "didChangeFired (onInput f repo) =
     didChangeFired repo + (inputDidChangeFired (f (input repo)) - inputDidChangeFired (input repo))"
  by (simp_all add: onInput_def Let_def)

lemma set_value_same: "p_value i = v \<Longrightarrow> set_value v i = i"
  by (simp add: set_value_def)

lemma set_value_other:
  assumes "p_value i \<noteq> v"
  shows "p_value (set_value v i) = v"
    and "p_issue (set_value v i) = p_issue i"
    and "inputDidChangeFired (set_value v i) = Suc (inputDidChangeFired i)"
    and "focusFired (set_value v i) = focusFired i"
    and "pendingValidations (set_value v i) =
           (case validator (input_options i) of
              None \<Rightarrow> pendingValidations i
            | Some f \<Rightarrow> pendingValidations i @ [f v])"
  using assms
  by (simp_all add: set_value_def validate_def fireInputDidChange_def split: option.splits)

lemma set_value_value: "p_value (set_value v i) = v"
  by (simp add: set_value_def validate_def fireInputDidChange_def split: option.splits)

lemma set_value_keeps:
  "focusFired (set_value v i) = focusFired i"
  "input_options (set_value v i) = input_options i"
  by (simp_all add: set_value_def validate_def fireInputDidChange_def split: option.splits)

lemma focus_fields:
  "p_value (focus i) = p_value i" "p_issue (focus i) = p_issue i"
  "focusFired (focus i) = Suc (focusFired i)"
  "inputDidChangeFired (focus i) = inputDidChangeFired i"
  by (simp_all add: focus_def)

lemmas input_fields =
  p_issue_set_issue set_issue_keeps onInput_fields set_value_value set_value_keeps focus_fields

text \<open>
  C7: setting the value of the input to its current value changes nothing and fires no
  event. Setting it to another string stores the string, fires the input's change event
  once, which fires the repository's, and calls the configured validator on the new
  value; when the validator's promise resolves, its result is assigned to the issue.
  Setting the issue to a value deep-equal to the current one (undefined read as the empty
  object), that is to the same issue, changes nothing and fires no event; setting it to
  another value stores it and fires the change event.
\<close>

theorem input_value_and_issue:
  "(p_value (input repo) = v \<longrightarrow> onInput (set_value v) repo = repo) \<and>
   (p_value (input repo) \<noteq> v \<longrightarrow>
      p_value (input (onInput (set_value v) repo)) = v \<and>
      p_issue (input (onInput (set_value v) repo)) = p_issue (input repo) \<and>
      inputDidChangeFired (input (onInput (set_value v) repo)) =
        Suc (inputDidChangeFired (input repo)) \<and>
      didChangeFired (onInput (set_value v) repo) = Suc (didChangeFired repo) \<and>
      (validator (input_options (input repo)) = None \<longrightarrow>
         pendingValidations (input (onInput (set_value v) repo)) =
           pendingValidations (input repo)) \<and>
      (\<forall>f. validator (input_options (input repo)) = Some f \<longrightarrow>
         pendingValidations (input (onInput (set_value v) repo)) =
           pendingValidations (input repo) @ [f v] \<and>
         p_issue (input (onInput (resumeValidate (length (pendingValidations (input repo))))
                          (onInput (set_value v) repo))) = f v \<and>
         p_value (input (onInput (resumeValidate (length (pendingValidations (input repo))))
                          (onInput (set_value v) repo))) = v \<and>
         pendingValidations
           (input (onInput (resumeValidate (length (pendingValidations (input repo))))
                          (onInput (set_value v) repo))) = pendingValidations (input repo))) \<and>
   (deepEqual (orEmpty (p_issue (input repo))) (orEmpty x) \<longrightarrow>
      onInput (set_issue x) repo = repo) \<and>
   (\<not> deepEqual (orEmpty (p_issue (input repo))) (orEmpty x) \<longrightarrow>
      p_issue (input (onInput (set_issue x) repo)) = x \<and>
      p_value (input (onInput (set_issue x) repo)) = p_value (input repo) \<and>
      inputDidChangeFired (input (onInput (set_issue x) repo)) =
        Suc (inputDidChangeFired (input repo)) \<and>
      didChangeFired (onInput (set_issue x) repo) = Suc (didChangeFired repo)) \<and>
   (deepEqual (orEmpty (p_issue (input repo))) (orEmpty x) \<longleftrightarrow> p_issue (input repo) = x)"
proof -
  have same: "onInput (set_value v) repo = repo" if "p_value (input repo) = v"
    using that by (simp add: input_fields onInput_id set_value_same)
  have other: "p_value (input (onInput (set_value v) repo)) = v \<and>
      p_issue (input (onInput (set_value v) repo)) = p_issue (input repo) \<and>
      inputDidChangeFired (input (onInput (set_value v) repo)) =
        Suc (inputDidChangeFired (input repo)) \<and>
      didChangeFired (onInput (set_value v) repo) = Suc (didChangeFired repo)"
    if "p_value (input repo) \<noteq> v"
    using that by (simp add: input_fields set_value_other)
  have noval: "pendingValidations (input (onInput (set_value v) repo)) =
           pendingValidations (input repo)"
    if "p_value (input repo) \<noteq> v" "validator (input_options (input repo)) = None"
    using that by (simp add: input_fields set_value_other)
  have val: "pendingValidations (input (onInput (set_value v) repo)) =
           pendingValidations (input repo) @ [f v] \<and>
         p_issue (input (onInput (resumeValidate (length (pendingValidations (input repo))))
                          (onInput (set_value v) repo))) = f v \<and>
         p_value (input (onInput (resumeValidate (length (pendingValidations (input repo))))
                          (onInput (set_value v) repo))) = v \<and>
         pendingValidations
           (input (onInput (resumeValidate (length (pendingValidations (input repo))))
                          (onInput (set_value v) repo))) = pendingValidations (input repo)"
    if "p_value (input repo) \<noteq> v" "validator (input_options (input repo)) = Some f" for f
    using that by (simp add: input_fields set_value_other resumeValidate_def)
  have isame: "onInput (set_issue x) repo = repo"
    if "deepEqual (orEmpty (p_issue (input repo))) (orEmpty x)"
    using that by (simp add: input_fields onInput_id set_issue_same deepEqual_orEmpty)
  have iother: "p_issue (input (onInput (set_issue x) repo)) = x \<and>
      p_value (input (onInput (set_issue x) repo)) = p_value (input repo) \<and>
      inputDidChangeFired (input (onInput (set_issue x) repo)) =
        Suc (inputDidChangeFired (input repo)) \<and>
      didChangeFired (onInput (set_issue x) repo) = Suc (didChangeFired repo)"
    if "\<not> deepEqual (orEmpty (p_issue (input repo))) (orEmpty x)"
    using that by (simp add: input_fields deepEqual_orEmpty set_issue_other)
  from same other noval val isame iother show ?thesis
    by (simp add: input_fields deepEqual_orEmpty)
qed

lemma validatedRepository_eval:
  "p_value (input validatedRepository) = []"
  "p_issue (input validatedRepository) = None"
  "pendingValidations (input validatedRepository) = []"
  "validator (input_options (input validatedRepository)) = Some exampleValidator"
  "didChangeFired validatedRepository = 1"
  "inputDidChangeFired (input validatedRepository) = 0"
  by (simp_all add: input_fields validatedRepository_def new_ScmRepository_def updateResources_def
      updateSelection_def set_selectedResource_def fireDidChange_def new_ScmInput_def)

text \<open>
  C7 at a repository whose validator rejects values longer than three characters:
  the value \<open>abcde\<close> is stored and the validator's warning becomes the issue; the
  empty value, which is the current one, changes nothing; so does the undefined issue.
\<close>

theorem input_value_and_issue_witness:
  "p_value (input validatedRepository) \<noteq> ''abcde'' \<and>
   validator (input_options (input validatedRepository)) = Some exampleValidator \<and>
   p_value (input (onInput (set_value ''abcde'') validatedRepository)) = ''abcde'' \<and>
   didChangeFired (onInput (set_value ''abcde'') validatedRepository) = 2 \<and>
   p_issue (input (onInput (resumeValidate 0)
                     (onInput (set_value ''abcde'') validatedRepository))) =
     Some \<lparr>issue_message = ''too long'', issue_type = warning\<rparr> \<and>
   p_value (input validatedRepository) = [] \<and>
   onInput (set_value []) validatedRepository = validatedRepository \<and>
   \<not> deepEqual (orEmpty (p_issue (input validatedRepository))) (orEmpty (Some noMessageIssue)) \<and>
   p_issue (input (onInput (set_issue (Some noMessageIssue)) validatedRepository)) =
     Some noMessageIssue \<and>
   didChangeFired (onInput (set_issue (Some noMessageIssue)) validatedRepository) = 2 \<and>
   deepEqual (orEmpty (p_issue (input validatedRepository))) (orEmpty None) \<and>
   onInput (set_issue None) validatedRepository = validatedRepository"
proof -
  have diff: "p_value (input validatedRepository) \<noteq> ''abcde''"
    and same: "p_value (input validatedRepository) = []"
    and val: "validator (input_options (input validatedRepository)) = Some exampleValidator"
    by (simp_all add: input_fields validatedRepository_eval)
  have ne: "\<not> deepEqual (orEmpty (p_issue (input validatedRepository)))
      (orEmpty (Some noMessageIssue))"
    and eq: "deepEqual (orEmpty (p_issue (input validatedRepository))) (orEmpty None)"
    by (simp_all add: input_fields validatedRepository_eval deepEqual_def orEmpty_def)
  have a: "p_value (input (onInput (set_value ''abcde'') validatedRepository)) = ''abcde'' \<and>
      didChangeFired (onInput (set_value ''abcde'') validatedRepository) = 2 \<and>
      p_issue (input (onInput (resumeValidate 0)
                     (onInput (set_value ''abcde'') validatedRepository))) =
        Some \<lparr>issue_message = ''too long'', issue_type = warning\<rparr>"
    using diff val
      input_value_and_issue [of validatedRepository "''abcde''" "Some noMessageIssue"]
    by (simp add: input_fields validatedRepository_eval exampleValidator_def)
  have b: "onInput (set_value []) validatedRepository = validatedRepository"
    using same input_value_and_issue [of validatedRepository "[]" None] by blast
  have c: "p_issue (input (onInput (set_issue (Some noMessageIssue)) validatedRepository)) =
        Some noMessageIssue \<and>
      didChangeFired (onInput (set_issue (Some noMessageIssue)) validatedRepository) = 2"
    using ne input_value_and_issue [of validatedRepository "''abcde''" "Some noMessageIssue"]
    by (simp add: input_fields validatedRepository_eval)
  have d: "onInput (set_issue None) validatedRepository = validatedRepository"
    using eq input_value_and_issue [of validatedRepository "[]" None] by blast
  from diff same val ne eq a b c d show ?thesis by (simp add: input_fields input_fields)
qed

section \<open>Properties of GitContribution\<close>








lemma exampleContribution_eval:
  "selectedScmRepository exampleContribution = Some exampleRepository"
  "gitCalls exampleContribution = []"
  "p_value (input exampleRepository) = []"
  "repository (provider exampleRepository) = ''file:///w''"
  "focusFired (input exampleRepository) = 0"
  by (simp_all add: input_fields exampleContribution_def exampleRepository_def exampleProvider_def
      new_ScmRepository_def updateResources_def updateSelection_def set_selectedResource_def
      fireDidChange_def new_ScmInput_def)






lemma dirtyOf_cases:
  "dirtyOf cs =
     (if cs = [] then []
      else if \<exists>c \<in> set cs. status c = Conflicted then ''!''
      else if \<forall>c \<in> set cs. staged c = Some True then ''+''
      else ''*'')"
  by (auto simp: input_fields dirtyOf_def hasConflicts_def allStaged_def list_ex_iff Let_def)

text \<open>
  C5: the listener of the Git status event passes one command, \<open>git.checkout\<close>, whose
  text is \<open>$(code-fork) \<close> followed by the branch name (when there is no branch or
  it is empty: the first 8 characters of the current head, and \<open>NO-HEAD\<close> when there is
  no head either) and by the dirty marker: nothing when there is no change, \<open>!\<close> when
  some change is conflicted, \<open>+\<close> when no change is conflicted and every change is
  staged, \<open>*\<close> otherwise.
\<close>

theorem checkout_status_bar_text:
  "map cmd_text (onGitEvent_statusBarCommands st) =
     [''$(code-fork) '' @ branchOf st @ dirtyOf (changes st)] \<and>
   map cmd_id (onGitEvent_statusBarCommands st) = [''git.checkout''] \<and>
   (\<forall>b. branch st = Some b \<and> b \<noteq> [] \<longrightarrow> branchOf st = b) \<and>
   (branch st = None \<or> branch st = Some [] \<longrightarrow>
      (\<forall>h. currentHead st = Some h \<and> h \<noteq> [] \<longrightarrow> branchOf st = take 8 h) \<and>
      (currentHead st = None \<or> currentHead st = Some [] \<longrightarrow> branchOf st = ''NO-HEAD'')) \<and>
   (changes st = [] \<longrightarrow> dirtyOf (changes st) = []) \<and>
   ((\<exists>c \<in> set (changes st). status c = Conflicted) \<longrightarrow> dirtyOf (changes st) = ''!'') \<and>
   (changes st \<noteq> [] \<and> (\<forall>c \<in> set (changes st). status c \<noteq> Conflicted) \<and>
      (\<forall>c \<in> set (changes st). staged c = Some True) \<longrightarrow> dirtyOf (changes st) = ''+'') \<and>
   (changes st \<noteq> [] \<and> (\<forall>c \<in> set (changes st). status c \<noteq> Conflicted) \<and>
      (\<exists>c \<in> set (changes st). staged c \<noteq> Some True) \<longrightarrow> dirtyOf (changes st) = ''*'')"
proof -
  have cmdtext: "map cmd_text (onGitEvent_statusBarCommands st) =
     [''$(code-fork) '' @ branchOf st @ dirtyOf (changes st)]"
    and ident: "map cmd_id (onGitEvent_statusBarCommands st) = [''git.checkout'']"
    by (simp_all add: input_fields onGitEvent_statusBarCommands_def GIT_CHECKOUT_def)
  have br: "branchOf st = b" if "branch st = Some b \<and> b \<noteq> []" for b
    using that by (simp add: input_fields branchOf_def truthy_def)
  have hd: "branchOf st = take 8 h"
    if "branch st = None \<or> branch st = Some []" "currentHead st = Some h \<and> h \<noteq> []" for h
    using that by (auto simp: input_fields branchOf_def truthy_def)
  have nohd: "branchOf st = ''NO-HEAD''"
    if "branch st = None \<or> branch st = Some []" "currentHead st = None \<or> currentHead st = Some []"
    using that by (auto simp: input_fields branchOf_def truthy_def)
  have d1: "dirtyOf (changes st) = []" if "changes st = []"
    using that by (simp add: input_fields dirtyOf_cases)
  have d2: "dirtyOf (changes st) = ''!''" if "\<exists>c \<in> set (changes st). status c = Conflicted"
    using that by (auto simp: input_fields dirtyOf_cases)
  have d3: "dirtyOf (changes st) = ''+''"
    if "changes st \<noteq> [] \<and> (\<forall>c \<in> set (changes st). status c \<noteq> Conflicted) \<and>
      (\<forall>c \<in> set (changes st). staged c = Some True)"
    using that by (auto simp: input_fields dirtyOf_cases)
  have d4: "dirtyOf (changes st) = ''*''"
    if "changes st \<noteq> [] \<and> (\<forall>c \<in> set (changes st). status c \<noteq> Conflicted) \<and>
      (\<exists>c \<in> set (changes st). staged c \<noteq> Some True)"
    using that by (auto simp: input_fields dirtyOf_cases)
  from cmdtext ident br hd nohd d1 d2 d3 d4 show ?thesis by blast
qed

text \<open>
  C5 at four statuses: a conflict on \<open>master\<close>, a detached head with an unstaged
  change, no head and no change, and a staged change on \<open>master\<close>.
\<close>

theorem checkout_status_bar_text_witness:
  "branch conflictStatus = Some ''master'' \<and>
   (\<exists>c \<in> set (changes conflictStatus). status c = Conflicted) \<and>
   map cmd_text (onGitEvent_statusBarCommands conflictStatus) = [''$(code-fork) master!''] \<and>
   branch mixedStatus = None \<and> currentHead mixedStatus = Some ''0123456789abcdef'' \<and>
   (\<exists>c \<in> set (changes mixedStatus). staged c \<noteq> Some True) \<and>
   map cmd_text (onGitEvent_statusBarCommands mixedStatus) = [''$(code-fork) 01234567*''] \<and>
   branch cleanStatus = None \<and> currentHead cleanStatus = None \<and> changes cleanStatus = [] \<and>
   map cmd_text (onGitEvent_statusBarCommands cleanStatus) = [''$(code-fork) NO-HEAD''] \<and>
   changes stagedStatus \<noteq> [] \<and>
   map cmd_text (onGitEvent_statusBarCommands stagedStatus) = [''$(code-fork) master+'']"
proof -
  have a: "map cmd_text (onGitEvent_statusBarCommands conflictStatus) = [''$(code-fork) master!'']"
    using checkout_status_bar_text [of conflictStatus]
    by (simp add: input_fields conflictStatus_def)
  have b: "map cmd_text (onGitEvent_statusBarCommands mixedStatus) = [''$(code-fork) 01234567*'']"
    using checkout_status_bar_text [of mixedStatus]
    by (simp add: input_fields mixedStatus_def)
  have c: "map cmd_text (onGitEvent_statusBarCommands cleanStatus) = [''$(code-fork) NO-HEAD'']"
    using checkout_status_bar_text [of cleanStatus]
    by (simp add: input_fields cleanStatus_def)
  have d: "map cmd_text (onGitEvent_statusBarCommands stagedStatus) = [''$(code-fork) master+'']"
    using checkout_status_bar_text [of stagedStatus]
    by (simp add: input_fields stagedStatus_def)
  from a b c d show ?thesis
    by (simp add: input_fields conflictStatus_def mixedStatus_def cleanStatus_def stagedStatus_def)
qed

lemma endsWith_iff: "endsWith v s \<longleftrightarrow> (\<exists>u. v = u @ s)"
proof
  assume "endsWith v s"
  then have "v = take (length v - length s) v @ s"
    by (metis append_take_drop_id endsWith_def)
  then show "\<exists>u. v = u @ s" ..
next
  assume "\<exists>u. v = u @ s"
  then show "endsWith v s" by (auto simp: input_fields endsWith_def)
qed

lemma toggle_remove: "toggleSignOff s (u @ s) = u"
  by (simp add: input_fields toggleSignOff_def endsWith_iff substr0_def)

lemma toggle_add: "\<not> endsWith v s \<Longrightarrow> toggleSignOff s v = v @ s"
  by (simp add: input_fields toggleSignOff_def)

lemma toggle_twice:
  assumes "\<not> endsWith v (s @ s)"
  shows "toggleSignOff s (toggleSignOff s v) = v"
proof (cases "endsWith v s")
  case True
  then obtain u where v: "v = u @ s" by (auto simp: input_fields endsWith_iff)
  with assms have "\<not> endsWith u s" by (auto simp: input_fields endsWith_iff)
  then show ?thesis by (simp add: input_fields v toggle_remove toggle_add)
next
  case False
  then show ?thesis by (simp add: input_fields toggle_add toggle_remove)
qed

lemma toggle_twice_double: "toggleSignOff s (toggleSignOff s (u @ s @ s)) = u"
  by (metis append.assoc toggle_remove)

lemma addSignOff_result:
  assumes "selectedScmRepository w = Some repo"
    and "git_exec git (repository (provider repo)) [''config'', ''user.name''] = Inr out1"
    and "git_exec git (repository (provider repo)) [''config'', ''user.email''] = Inr out2"
  shows "addSignOff git w =
    (Inr (),
     w\<lparr>gitCalls := gitCalls w @
          [ExecCall (repository (provider repo)) [''config'', ''user.name''],
           ExecCall (repository (provider repo)) [''config'', ''user.email'']],
        selectedScmRepository :=
          Some (onInput focus
                 (onInput (set_value (toggleSignOff (signOffOf (trim out1) (trim out2))
                                        (p_value (input repo)))) repo))\<rparr>)"
  using assms by (simp add: input_fields addSignOff_def Let_def toggleSignOff_def)

lemma value_after_toggle:
  "p_value (input (onInput focus (onInput (set_value v) repo))) = v"
  "focusFired (input (onInput focus (onInput (set_value v) repo))) =
     Suc (focusFired (input repo))"
  by (simp_all add: input_fields input_fields)

text \<open>
  C9 (amended): with a repository selected and \<open>git config\<close> answering the user's name
  and email, each call of \<open>addSignOff\<close> focuses the input and toggles the suffix
  made of two line feeds and \<open>Signed-off-by: <name> <email>\<close> at the end of its value: the suffix is removed when the
  value ends with it and appended when it does not. Two calls, with the same answers
  of \<open>git config\<close>, restore the original value when it does not end with two copies
  of the suffix; when it does, they remove both copies.
\<close>

theorem addSignOff_toggles:
  assumes "selectedScmRepository w = Some repo"
    and "git_exec git (repository (provider repo)) [''config'', ''user.name''] = Inr out1"
    and "git_exec git (repository (provider repo)) [''config'', ''user.email''] = Inr out2"
  shows "\<exists>repo' repo''.
     selectedScmRepository (snd (addSignOff git w)) = Some repo' \<and>
     selectedScmRepository (snd (addSignOff git (snd (addSignOff git w)))) = Some repo'' \<and>
     focusFired (input repo') = Suc (focusFired (input repo)) \<and>
     focusFired (input repo'') = Suc (focusFired (input repo')) \<and>
     (if endsWith (p_value (input repo)) (signOffOf (trim out1) (trim out2))
      then p_value (input repo') @ signOffOf (trim out1) (trim out2) = p_value (input repo)
      else p_value (input repo') = p_value (input repo) @ signOffOf (trim out1) (trim out2)) \<and>
     (if endsWith (p_value (input repo))
           (signOffOf (trim out1) (trim out2) @ signOffOf (trim out1) (trim out2))
      then p_value (input repo'') @ signOffOf (trim out1) (trim out2) @
             signOffOf (trim out1) (trim out2) = p_value (input repo)
      else p_value (input repo'') = p_value (input repo))"
proof -
  define s where "s = signOffOf (trim out1) (trim out2)"
  define v where "v = p_value (input repo)"
  define r1 where "r1 = onInput focus (onInput (set_value (toggleSignOff s v)) repo)"
  define r2 where
    "r2 = onInput focus (onInput (set_value (toggleSignOff s (toggleSignOff s v))) r1)"
  have first: "addSignOff git w =
    (Inr (),
     w\<lparr>gitCalls := gitCalls w @
          [ExecCall (repository (provider repo)) [''config'', ''user.name''],
           ExecCall (repository (provider repo)) [''config'', ''user.email'']],
        selectedScmRepository := Some r1\<rparr>)"
    unfolding r1_def s_def v_def by (rule addSignOff_result [OF assms])
  have sel1: "selectedScmRepository (snd (addSignOff git w)) = Some r1"
    by (simp add: input_fields first)
  have prov1: "provider r1 = provider repo" and val1: "p_value (input r1) = toggleSignOff s v"
    and foc1: "focusFired (input r1) = Suc (focusFired (input repo))"
    by (simp_all add: input_fields r1_def)
  have second: "addSignOff git (snd (addSignOff git w)) =
    (Inr (),
     (snd (addSignOff git w))\<lparr>gitCalls := gitCalls (snd (addSignOff git w)) @
          [ExecCall (repository (provider r1)) [''config'', ''user.name''],
           ExecCall (repository (provider r1)) [''config'', ''user.email'']],
        selectedScmRepository := Some r2\<rparr>)"
    unfolding r2_def s_def val1 [unfolded s_def, symmetric]
    by (rule addSignOff_result [OF sel1]) (simp_all add: input_fields prov1 assms)
  have sel2: "selectedScmRepository (snd (addSignOff git (snd (addSignOff git w)))) = Some r2"
    by (simp add: input_fields second)
  have val2: "p_value (input r2) = toggleSignOff s (toggleSignOff s v)"
    and foc2: "focusFired (input r2) = Suc (focusFired (input r1))"
    by (simp_all add: input_fields r2_def)
  have once: "(if endsWith v s then p_value (input r1) @ s = v else p_value (input r1) = v @ s)"
    unfolding val1 by (auto simp: input_fields endsWith_iff toggle_remove toggle_add)
  have twice: "(if endsWith v (s @ s) then p_value (input r2) @ s @ s = v
      else p_value (input r2) = v)"
    unfolding val2 by (auto simp: input_fields toggle_twice) (auto simp: input_fields endsWith_iff toggle_twice_double)
  from sel1 sel2 foc1 foc2 once twice show ?thesis
    unfolding s_def v_def by blast
qed

lemma doubleSigned_eval:
  "selectedScmRepository doubleSigned =
     Some (onInput (set_value (signOffOf ''a'' ''b'' @ signOffOf ''a'' ''b'')) exampleRepository)"
  "inputValue doubleSigned = Some (signOffOf ''a'' ''b'' @ signOffOf ''a'' ''b'')"
  by (simp_all add: input_fields doubleSigned_def inputValue_def)

lemma exampleGit_exec:
  "git_exec (exampleGit st) r [''config'', ''user.name''] = Inr [CHR ''a'', CHR 0x0A]"
  "git_exec (exampleGit st) r [''config'', ''user.email''] = Inr [CHR ''b'', CHR 0x0A]"
  by (simp_all add: input_fields exampleGit_def)

lemma trim_examples: "trim [CHR ''a'', CHR 0x0A] = ''a''" "trim [CHR ''b'', CHR 0x0A] = ''b''"
  by (simp_all add: input_fields trim_def isWhiteSpace_def)

text \<open>
  C9 as stated, that two calls of \<open>addSignOff\<close> always restore the value, fails: from
  a value made of the sign-off line of \<open>a <b>\<close> twice, the first call leaves one copy
  and the second leaves the empty string.
\<close>

theorem addSignOff_twice_counterexample:
  "inputValue doubleSigned = Some (signOffOf ''a'' ''b'' @ signOffOf ''a'' ''b'') \<and>
   inputValue (snd (addSignOff (exampleGit cleanStatus) doubleSigned)) =
     Some (signOffOf ''a'' ''b'') \<and>
   inputValue (snd (addSignOff (exampleGit cleanStatus)
                      (snd (addSignOff (exampleGit cleanStatus) doubleSigned)))) = Some [] \<and>
   inputValue (snd (addSignOff (exampleGit cleanStatus)
                      (snd (addSignOff (exampleGit cleanStatus) doubleSigned)))) \<noteq>
     inputValue doubleSigned"
proof -
  let ?s = "signOffOf ''a'' ''b''"
  let ?r0 = "onInput (set_value (?s @ ?s)) exampleRepository"
  let ?r1 = "onInput focus (onInput (set_value (toggleSignOff ?s (?s @ ?s))) ?r0)"
  have one: "addSignOff (exampleGit cleanStatus) doubleSigned =
      (Inr (), doubleSigned\<lparr>gitCalls := gitCalls doubleSigned @
          [ExecCall (repository (provider ?r0)) [''config'', ''user.name''],
           ExecCall (repository (provider ?r0)) [''config'', ''user.email'']],
        selectedScmRepository := Some ?r1\<rparr>)"
    using addSignOff_result [OF doubleSigned_eval(1) exampleGit_exec, of cleanStatus]
    by (simp add: input_fields trim_examples)
  have v1: "inputValue (snd (addSignOff (exampleGit cleanStatus) doubleSigned)) = Some ?s"
    unfolding one by (simp add: input_fields inputValue_def toggle_remove)
  have sel1: "selectedScmRepository (snd (addSignOff (exampleGit cleanStatus) doubleSigned)) =
      Some ?r1"
    unfolding one by (simp add: input_fields input_fields)
  have v2: "inputValue (snd (addSignOff (exampleGit cleanStatus)
                      (snd (addSignOff (exampleGit cleanStatus) doubleSigned)))) = Some []"
    unfolding addSignOff_result [OF sel1 exampleGit_exec, of cleanStatus]
    using toggle_remove [of ?s "[]"]
    by (simp add: input_fields inputValue_def trim_examples toggle_remove)
  have ne: "signOffOf ''a'' ''b'' @ signOffOf ''a'' ''b'' \<noteq> []"
    by (simp add: input_fields signOffOf_def)
  from v1 v2 ne show ?thesis by (simp add: input_fields doubleSigned_eval)
qed

text \<open>
  C9 at the example repository, whose input is empty: the first call writes the sign-off
  line of \<open>a <b>\<close>, the second empties the input again.
\<close>

theorem addSignOff_toggles_witness:
  "selectedScmRepository exampleContribution = Some exampleRepository \<and>
   git_exec (exampleGit cleanStatus) (repository (provider exampleRepository))
     [''config'', ''user.name''] = Inr [CHR ''a'', CHR 0x0A] \<and>
   git_exec (exampleGit cleanStatus) (repository (provider exampleRepository))
     [''config'', ''user.email''] = Inr [CHR ''b'', CHR 0x0A] \<and>
   inputValue exampleContribution = Some [] \<and>
   inputValue (snd (addSignOff (exampleGit cleanStatus) exampleContribution)) =
     Some (signOffOf ''a'' ''b'') \<and>
   inputValue (snd (addSignOff (exampleGit cleanStatus)
                      (snd (addSignOff (exampleGit cleanStatus) exampleContribution)))) =
     Some []"
proof -
  let ?s = "signOffOf ''a'' ''b''"
  have sel: "selectedScmRepository exampleContribution = Some exampleRepository"
    and v0: "p_value (input exampleRepository) = []"
    by (simp_all add: input_fields exampleContribution_eval)
  note ex = exampleGit_exec [of cleanStatus "repository (provider exampleRepository)"]
  have n1: "\<not> endsWith [] ?s" and n2: "\<not> endsWith [] (?s @ ?s)"
    by (simp_all add: input_fields endsWith_def signOffOf_def)
  from addSignOff_toggles [OF sel ex]
  obtain repo' repo'' where
    s1: "selectedScmRepository (snd (addSignOff (exampleGit cleanStatus) exampleContribution)) =
      Some repo'"
    and s2: "selectedScmRepository (snd (addSignOff (exampleGit cleanStatus)
      (snd (addSignOff (exampleGit cleanStatus) exampleContribution)))) = Some repo''"
    and p1: "p_value (input repo') = ?s"
    and p2: "p_value (input repo'') = []"
    using n1 n2 by (auto simp: input_fields v0 trim_examples)
  from sel ex s1 s2 p1 p2 v0 show ?thesis
    by (simp add: input_fields inputValue_def)
qed

text \<open>
  C10: the resource commands are registered for the labels \<open>Changes\<close>, \<open>Staged
  changes\<close> and \<open>Merged Changes\<close> and no other: open-changed-file, discard and stage,
  in this order, for \<open>Changes\<close> and for \<open>Merged Changes\<close>, open-changed-file and unstage
  for \<open>Staged changes\<close>. The group commands are discard-all and stage-all for
  \<open>Changes\<close>, unstage-all for \<open>Staged changes\<close> and stage-all for \<open>Merged Changes\<close>.
\<close>

theorem registered_scm_commands:
  "map (\<lambda>e. (fst e, map item_command (snd e))) (registerScmResourceCommands []) =
     [(''Changes'', [''git.open.changed.file'', ''git.discard'', ''git.stage'']),
      (''Staged changes'', [''git.open.changed.file'', ''git.unstage'']),
      (''Merged Changes'', [''git.open.changed.file'', ''git.discard'', ''git.stage''])] \<and>
   map (\<lambda>e. (fst e, map item_command (snd e))) (registerScmGroupCommands []) =
     [(''Changes'', [''git.discard.all'', ''git.stage.all'']),
      (''Staged changes'', [''git.unstage.all'']),
      (''Merged Changes'', [''git.stage.all''])] \<and>
   set (map fst (registerScmResourceCommands [])) =
     {''Changes'', ''Staged changes'', ''Merged Changes''} \<and>
   registerScmResourceCommands registry = registry @ registerScmResourceCommands [] \<and>
   registerScmGroupCommands registry = registry @ registerScmGroupCommands []"
  by (simp add: registerScmResourceCommands_def registerScmGroupCommands_def registerItems_def
      OPEN_CHANGED_FILE_id_def DISCARD_id_def STAGE_id_def UNSTAGE_id_def
      DISCARD_ALL_id_def STAGE_ALL_id_def UNSTAGE_ALL_id_def)


end
